theory Spec2Isabelle
  imports Complex_Main
begin

section \<open>TempoTrail: the windowed inference service of predict.py\<close>

text \<open>
  The development embeds the request handlers \<open>demo_predict_api\<close> and \<open>demo_data_api\<close>
  and the cleaning stage of \<open>load_demo_data\<close> of \<open>src/predict.py\<close>.

  Numbers. Timestamps are 64-bit integer seconds; they are modelled by \<open>int\<close>, and the
  one subtraction on them wraps around as the machine does. Heart rate, speed and the three
  durations of the model configuration are finite doubles, modelled by the \<open>real\<close> they
  denote. A float operation that rounds (the division of two durations, the conversion of
  a decimal string) goes through a rounding function \<open>rnd\<close>, which every definition that
  needs it takes as its first argument: \<open>rnd x\<close> is the double nearest to the exact result
  \<open>x\<close>, or an infinity when \<open>x\<close> is out of range. The theorems hold for every \<open>rnd\<close>. A
  missing measurement (NaN) of the raw session is \<open>None\<close>.
\<close>

subsection \<open>Python built-ins used by the handlers\<close>

text \<open>The value of a float operation: a finite double, an infinity, or NaN.\<close>

datatype float_result = Finite real | Infinite | NotANumber

type_synonym rounding = "real \<Rightarrow> float_result"

datatype py_exception = ValueError | OtherException

text \<open>
  \<open>int(x)\<close> on a float truncates towards zero; on an infinity it raises
  \<open>OverflowError\<close>, on NaN \<open>ValueError\<close>.
\<close>

definition py_trunc :: "real \<Rightarrow> int" where
  "py_trunc x = (if 0 \<le> x then \<lfloor>x\<rfloor> else \<lceil>x\<rceil>)"

definition int_of_float :: "float_result \<Rightarrow> py_exception + int" where
  "int_of_float x =
     (case x of
        Finite r \<Rightarrow> Inr (py_trunc r)
      | Infinite \<Rightarrow> Inl OtherException
      | NotANumber \<Rightarrow> Inl ValueError)"

text \<open>
  \<open>int(s)\<close> and \<open>float(s)\<close> on a string, for ASCII input: surrounding whitespace is
  stripped, a sign is optional, and digits may be separated by single underscores.
  \<open>None\<close> stands for the \<open>ValueError\<close> that Python raises. \<open>int\<close> also raises it for a
  literal of more than 4300 digits.
\<close>

definition is_space :: "char \<Rightarrow> bool" where
  "is_space c = (c \<in> set [CHR '' '', CHR 0x09, CHR 0x0A, CHR 0x0B, CHR 0x0C, CHR 0x0D])"

definition strip :: "string \<Rightarrow> string" where
  "strip s = rev (dropWhile is_space (rev (dropWhile is_space s)))"

definition digit_of :: "char \<Rightarrow> int option" where
  "digit_of c = map_of (zip ''0123456789'' [0, 1, 2, 3, 4, 5, 6, 7, 8, 9]) c"

text \<open>
  A digit part \<open>digit (["_"] digit)*\<close>: the accumulator holds the value read so far, the
  flag says whether the previous character was a digit.
\<close>

fun digits_val :: "string \<Rightarrow> int \<Rightarrow> bool \<Rightarrow> int option" where
  "digits_val [] acc prev_digit = (if prev_digit then Some acc else None)"
| "digits_val (c # cs) acc prev_digit =
     (if c = CHR ''_'' then
        (if prev_digit \<and> cs \<noteq> [] then digits_val cs acc False else None)
      else (case digit_of c of
              None \<Rightarrow> None
            | Some d \<Rightarrow> digits_val cs (10 * acc + d) True))"

definition digitpart :: "string \<Rightarrow> int option" where
  "digitpart s = digits_val s 0 False"

definition signed_digitpart :: "string \<Rightarrow> int option" where
  "signed_digitpart s =
     (case s of
        [] \<Rightarrow> None
      | c # cs \<Rightarrow>
          if c = CHR ''-'' then map_option uminus (digitpart cs)
          else if c = CHR ''+'' then digitpart cs
          else digitpart s)"

definition digit_count :: "string \<Rightarrow> nat" where
  "digit_count s = length (filter (\<lambda>c. digit_of c \<noteq> None) s)"

definition py_int :: "string \<Rightarrow> int option" where
  "py_int s =
     (case signed_digitpart (strip s) of
        None \<Rightarrow> None
      | Some v \<Rightarrow> if 4300 < digit_count (strip s) then None else Some v)"

text \<open>
  \<open>float(s)\<close>: \<open>[sign] number [exponent]\<close> with
  \<open>number = [digitpart] "." digitpart | digitpart ["."]\<close> and
  \<open>exponent = ("e" | "E") [sign] digitpart\<close>, rounded to a double; or, in any mix of
  upper and lower case, \<open>[sign] inf\<close>, \<open>[sign] infinity\<close> and \<open>[sign] nan\<close>.
\<close>

definition count_digits :: "string \<Rightarrow> nat" where
  "count_digits s = length (filter (\<lambda>c. c \<noteq> CHR ''_'') s)"

definition pow10 :: "int \<Rightarrow> real" where
  "pow10 e = (if 0 \<le> e then 10 ^ nat e else 1 / 10 ^ nat (- e))"

definition number_val :: "string \<Rightarrow> real option" where
  "number_val s =
     (let ip = takeWhile (\<lambda>c. c \<noteq> CHR ''.'') s;
          rest = dropWhile (\<lambda>c. c \<noteq> CHR ''.'') s
      in case rest of
           [] \<Rightarrow> map_option real_of_int (digitpart ip)
         | _ # fp \<Rightarrow>
             if fp = [] then map_option real_of_int (digitpart ip)
             else (case digitpart fp of
                     None \<Rightarrow> None
                   | Some f \<Rightarrow>
                       if ip = [] then Some (real_of_int f / 10 ^ count_digits fp)
                       else (case digitpart ip of
                               None \<Rightarrow> None
                             | Some i \<Rightarrow> Some (real_of_int i + real_of_int f / 10 ^ count_digits fp))))"

definition is_exp_char :: "char \<Rightarrow> bool" where
  "is_exp_char c = (c = CHR ''e'' \<or> c = CHR ''E'')"

definition floatnumber_val :: "string \<Rightarrow> real option" where
  "floatnumber_val s =
     (let mant = takeWhile (\<lambda>c. \<not> is_exp_char c) s;
          rest = dropWhile (\<lambda>c. \<not> is_exp_char c) s
      in case number_val mant of
           None \<Rightarrow> None
         | Some m \<Rightarrow>
             (case rest of
                [] \<Rightarrow> Some m
              | _ # ex \<Rightarrow> map_option (\<lambda>e. m * pow10 e) (signed_digitpart ex)))"

text \<open>The letters of the special spellings, in lower case; other characters stay.\<close>

definition lower_special :: "char \<Rightarrow> char" where
  "lower_special c = (case map_of (zip ''INFTYA'' ''inftya'') c of None \<Rightarrow> c | Some d \<Rightarrow> d)"

definition absfloatvalue :: "rounding \<Rightarrow> bool \<Rightarrow> string \<Rightarrow> float_result option" where
  "absfloatvalue rnd negative s =
     (if map lower_special s = ''inf'' \<or> map lower_special s = ''infinity'' then Some Infinite
      else if map lower_special s = ''nan'' then Some NotANumber
      else map_option (\<lambda>m. rnd (if negative then - m else m)) (floatnumber_val s))"

definition py_float :: "rounding \<Rightarrow> string \<Rightarrow> float_result option" where
  "py_float rnd s =
     (case strip s of
        [] \<Rightarrow> None
      | c # cs \<Rightarrow>
          if c = CHR ''-'' then absfloatvalue rnd True cs
          else if c = CHR ''+'' then absfloatvalue rnd False cs
          else absfloatvalue rnd False (c # cs))"

subsection \<open>The sample series (the data frame \<open>demo_item_df\<close>)\<close>

record sample =
  timestamp :: int
  origin_timestamp :: int
  heart_rate :: real
  speed :: real

type_synonym data_frame = "sample list"

text \<open>
  Positional access \<open>df.iloc[i]\<close>: a negative position counts from the end, a position
  out of range raises \<open>IndexError\<close> (here \<open>None\<close>).
\<close>

definition iloc :: "'a list \<Rightarrow> int \<Rightarrow> 'a option" where
  "iloc xs i =
     (if 0 \<le> i \<and> i < int (length xs) then Some (xs ! nat i)
      else if - int (length xs) \<le> i \<and> i < 0 then Some (xs ! nat (int (length xs) + i))
      else None)"

text \<open>
  The positional slice \<open>df.iloc[lo:hi]\<close>: negative bounds count from the end, bounds are
  clipped to the frame, and an empty range gives an empty frame; a slice never raises.
\<close>

definition slice_bound :: "int \<Rightarrow> int \<Rightarrow> int" where
  "slice_bound n i = (if i < 0 then max 0 (n + i) else min i n)"

definition iloc_slice :: "'a list \<Rightarrow> int \<Rightarrow> int \<Rightarrow> 'a list" where
  "iloc_slice xs lo hi =
     (let n = int (length xs); a = slice_bound n lo; b = slice_bound n hi
      in take (nat (b - a)) (drop (nat a) xs))"

text \<open>
  A two-dimensional numpy array: its shape and its rows.
  \<open>df[['speed', 'heart_rate']].values\<close> has one row \<open>[speed, heart_rate]\<close> per sample
  and always two columns.
\<close>

record ndarray =
  shape :: "nat \<times> nat"
  rows :: "real list list"

definition speed_heart_rate_values :: "data_frame \<Rightarrow> ndarray" where
  "speed_heart_rate_values df =
     \<lparr>shape = (length df, 2), rows = map (\<lambda>s. [speed s, heart_rate s]) df\<rparr>"

subsection \<open>The predictor and the process state\<close>

text \<open>
  The class \<open>FitRecSpeedPredictor\<close> lives in \<open>model.py\<close>, which is not part of the
  sources at hand. The handlers read four attributes of it and call \<open>predict\<close>; these are
  the fields of the record. \<open>predict\<close> is a function of its input array, which either
  raises (a \<open>ValueError\<close> or some other exception) or yields the predicted speed that
  \<open>float(predicted_speed)\<close> converts.
\<close>

datatype model_handle = Model

record FitRecSpeedPredictor =
  model :: "model_handle option"
  sampling_rate :: real
  window_duration :: real
  prediction_duration :: real
  predict :: "ndarray \<Rightarrow> py_exception + real"

text \<open>The two module globals; \<open>None\<close> is Python's \<open>None\<close>.\<close>

record app_state =
  predictor :: "FitRecSpeedPredictor option"
  demo_item_df :: "data_frame option"

subsection \<open>Responses\<close>

text \<open>
  An error response is the kind of its message and the HTTP status returned with it.
  The kinds name the return statements of the handlers, in the vocabulary of the
  specification; \<open>InvalidParameter\<close> is the \<open>except ValueError\<close> clause,
  \<open>InternalError\<close> the \<open>except Exception\<close> clause.
\<close>

datatype error_kind =
    NotInitialized
  | MissingParameter
  | InvalidParameter
  | IndexOutOfRange
  | InvalidConfiguration
  | ConfigurationError
  | InsufficientWindow
  | InvalidInputShape
  | InternalError

type_synonym http_error = "error_kind \<times> nat"

record prediction =
  predicted_speed :: real
  next_idx :: int
  current_input_end_origin_timestamp :: real
  next_idx_origin_timestamp :: real

subsection \<open>The Python runtime\<close>

text \<open>
  What the handlers take from the runtime and the libraries without fixing it themselves:
  the rounding of float operations, and the answer to a lookup whose distances are all
  NaN (\<open>idxmin\<close> then raises \<open>ValueError\<close> or returns NaN, which \<open>loc\<close> rejects,
  depending on the version of pandas).
\<close>

record py_runtime =
  rnd :: rounding
  all_nan_lookup :: http_error

text \<open>The two \<open>except\<close> clauses of the handlers.\<close>

definition raised :: "py_exception \<Rightarrow> http_error" where
  "raised e = (case e of ValueError \<Rightarrow> (InvalidParameter, 400)
                       | OtherException \<Rightarrow> (InternalError, 500))"

subsection \<open>\<open>demo_predict_api\<close>\<close>

text \<open>
  Lines 266 and 290 to 292: the two sample counts derived from the configuration. Both
  are computed after the check \<open>sampling_rate > 0\<close>, so the quotient is the rounded exact
  quotient.
\<close>

definition model_window_samples :: "py_runtime \<Rightarrow> FitRecSpeedPredictor \<Rightarrow> py_exception + int" where
  "model_window_samples rt p = int_of_float (rnd rt (window_duration p / sampling_rate p))"

definition samples_to_advance :: "py_runtime \<Rightarrow> FitRecSpeedPredictor \<Rightarrow> py_exception + int" where
  "samples_to_advance rt p =
     (case int_of_float (rnd rt (prediction_duration p / sampling_rate p)) of
        Inl e \<Rightarrow> Inl e
      | Inr n \<Rightarrow> Inr (if n \<le> 0 then 1 else n))"

text \<open>Lines 271 and 272: the trailing window that ends at \<open>idx\<close>.\<close>

definition input_sequence_df :: "data_frame \<Rightarrow> int \<Rightarrow> int \<Rightarrow> data_frame" where
  "input_sequence_df df idx ws = iloc_slice df (max 0 (idx - ws + 1)) (idx + 1)"

text \<open>Lines 296 to 300: the origin timestamp at \<open>next_idx\<close>, with its \<open>-1.0\<close> default.\<close>

definition next_idx_origin :: "data_frame \<Rightarrow> int \<Rightarrow> real" where
  "next_idx_origin df n =
     (if 0 \<le> n \<and> n < int (length df) then real_of_int (origin_timestamp (df ! nat n))
      else - 1)"

text \<open>
  Lines 281 to 308: from the prepared input array to the response. The second component
  of the result lists the arrays that were passed to \<open>predictor.predict\<close>.
\<close>

definition predict_on_input ::
  "py_runtime \<Rightarrow> FitRecSpeedPredictor \<Rightarrow> data_frame \<Rightarrow> int \<Rightarrow> int \<Rightarrow> ndarray
     \<Rightarrow> (http_error + prediction) \<times> ndarray list" where
  "predict_on_input rt p df idx ws input_array =
     (if int (fst (shape input_array)) \<noteq> ws \<or> snd (shape input_array) \<noteq> 2
      then (Inl (InvalidInputShape, 500), [])
      else (case iloc df idx of
              None \<Rightarrow> (Inl (InternalError, 500), [])
            | Some cur \<Rightarrow>
                (case predict p input_array of
                   Inl e \<Rightarrow> (Inl (raised e), [input_array])
                 | Inr v \<Rightarrow>
                     (case samples_to_advance rt p of
                        Inl e \<Rightarrow> (Inl (raised e), [input_array])
                      | Inr advance \<Rightarrow>
                          (let next_idx_val = min (idx + advance) (int (length df) - 1)
                           in (Inr \<lparr>predicted_speed = v,
                                    next_idx = next_idx_val,
                                    current_input_end_origin_timestamp =
                                      real_of_int (origin_timestamp cur),
                                    next_idx_origin_timestamp =
                                      next_idx_origin df next_idx_val\<rparr>,
                               [input_array]))))))"

text \<open>
  Lines 250 to 314. The argument is \<open>request.args.get('idx')\<close>: \<open>None\<close> when the query
  has no \<open>idx\<close>.
\<close>

definition demo_predict_api ::
  "py_runtime \<Rightarrow> app_state \<Rightarrow> string option \<Rightarrow> (http_error + prediction) \<times> ndarray list" where
  "demo_predict_api rt st idx_arg =
     (case predictor st of
        None \<Rightarrow> (Inl (NotInitialized, 500), [])
      | Some p \<Rightarrow>
      (case model p of
        None \<Rightarrow> (Inl (NotInitialized, 500), [])
      | Some _ \<Rightarrow>
      (case demo_item_df st of
        None \<Rightarrow> (Inl (NotInitialized, 500), [])
      | Some df \<Rightarrow>
          if df = [] then (Inl (NotInitialized, 500), [])
          else
      (case idx_arg of
        None \<Rightarrow> (Inl (MissingParameter, 400), [])
      | Some idx_str \<Rightarrow>
      (case py_int idx_str of
        None \<Rightarrow> (Inl (InvalidParameter, 400), [])
      | Some idx \<Rightarrow>
          if \<not> (0 \<le> idx \<and> idx < int (length df)) then (Inl (IndexOutOfRange, 400), [])
          else if sampling_rate p \<le> 0 then (Inl (InvalidConfiguration, 500), [])
          else
      (case model_window_samples rt p of
        Inl e \<Rightarrow> (Inl (raised e), [])
      | Inr ws \<Rightarrow>
          if ws \<le> 0 then (Inl (ConfigurationError, 500), [])
          else if int (length (input_sequence_df df idx ws)) < ws
               then (Inl (InsufficientWindow, 400), [])
          else predict_on_input rt p df idx ws
                 (speed_heart_rate_values (input_sequence_df df idx ws))))))))"

subsection \<open>\<open>demo_data_api\<close>\<close>





subsection \<open>\<open>load_demo_data\<close>: from the session columns to the series\<close>

text \<open>
  Lines 169 to 193. The session dictionary provides three columns. A data frame cannot be
  built from columns of different lengths (\<open>ValueError\<close>). The timestamp column holds
  integers and so has no missing value; heart rate and speed may be NaN.
\<close>

record session =
  heart_rate_col :: "real option list"
  speed_col :: "real option list"
  timestamp_col :: "int list"

record raw_row =
  raw_timestamp :: int
  raw_heart_rate :: "real option"
  raw_speed :: "real option"

datatype load_error =
    ColumnLengthMismatch
  | EmptyAfterInitialProcessing
  | EmptyAfterBasicCleaning

definition session_frame :: "session \<Rightarrow> raw_row list" where
  "session_frame sd =
     map (\<lambda>(t, h, v). \<lparr>raw_timestamp = t, raw_heart_rate = h, raw_speed = v\<rparr>)
       (zip (timestamp_col sd) (zip (heart_rate_col sd) (speed_col sd)))"

text \<open>
  Lines 186 to 188 on one row that already has its origin timestamp: \<open>dropna\<close> removes a
  row with a NaN, the mask keeps a row with \<open>speed >= 0\<close> and \<open>heart_rate > 0\<close>.
\<close>

text \<open>The difference of two 64-bit integers wraps around.\<close>

definition int64 :: "int \<Rightarrow> int" where
  "int64 x = (x + 2 ^ 63) mod 2 ^ 64 - 2 ^ 63"

definition basic_cleaning :: "int \<Rightarrow> raw_row \<Rightarrow> sample option" where
  "basic_cleaning t0 r =
     (case (raw_heart_rate r, raw_speed r) of
        (Some h, Some v) \<Rightarrow>
          if v \<ge> 0 \<and> h > 0
          then Some \<lparr>timestamp = raw_timestamp r,
                      origin_timestamp = int64 (raw_timestamp r - t0),
                      heart_rate = h, speed = v\<rparr>
          else None
      | _ \<Rightarrow> None)"

definition load_demo_data :: "session \<Rightarrow> load_error + data_frame" where
  "load_demo_data sd =
     (if length (heart_rate_col sd) = length (timestamp_col sd)
         \<and> length (speed_col sd) = length (timestamp_col sd)
      then (case sort_key raw_timestamp (session_frame sd) of
              [] \<Rightarrow> Inl EmptyAfterInitialProcessing
            | first # rest \<Rightarrow>
                (let cleaned = List.map_filter (basic_cleaning (raw_timestamp first))
                                 (first # rest)
                 in if cleaned = [] then Inl EmptyAfterBasicCleaning else Inr cleaned))
      else Inl ColumnLengthMismatch)"

subsection \<open>\<open>initialize_app\<close> and the life of the process\<close>






subsection \<open>A small deployment\<close>

text \<open>
  The end-to-end example of the specification: a series of ten samples, a window of three
  samples and an advance of two. The stand-in for the trained model sums its input.
\<close>

definition demo_sample :: "int \<Rightarrow> sample" where
  "demo_sample k =
     \<lparr>timestamp = 1000 + 2 * k, origin_timestamp = 2 * k,
      heart_rate = 120 + real_of_int k, speed = 9 + real_of_int k\<rparr>"

definition demo_series :: data_frame where
  "demo_series = map demo_sample [0, 1, 2, 3, 4, 5, 6, 7, 8, 9]"

definition demo_predictor :: FitRecSpeedPredictor where
  "demo_predictor =
     \<lparr>model = Some Model, sampling_rate = 1, window_duration = 3, prediction_duration = 2,
      predict = (\<lambda>a. Inr (sum_list (concat (rows a))))\<rparr>"

text \<open>
  A runtime for the examples, in which every exact result is a double already (the
  quotients 3 / 1 and 2 / 1, the literal 3.5) and so is its own rounding.
\<close>

definition exact_runtime :: py_runtime where
  "exact_runtime = \<lparr>rnd = Finite, all_nan_lookup = (InternalError, 500)\<rparr>"

definition demo_state :: app_state where
  "demo_state = \<lparr>predictor = Some demo_predictor, demo_item_df = Some demo_series\<rparr>"

text \<open>The module globals before \<open>initialize_app\<close> has run.\<close>

definition initial_state :: app_state where
  "initial_state = \<lparr>predictor = None, demo_item_df = None\<rparr>"


text \<open>A session whose earliest row has no heart rate yet.\<close>

definition warmup_session :: session where
  "warmup_session =
     \<lparr>heart_rate_col = [Some 0, Some 100], speed_col = [Some 1, Some 1],
      timestamp_col = [10, 20]\<rparr>"

section \<open>Evaluation and basic facts\<close>

text \<open>The defining equations, collected for evaluating the handlers on concrete requests.\<close>

lemmas parse_defs = py_int_def strip_def is_space_def signed_digitpart_def digitpart_def
  digit_of_def digit_count_def py_float_def absfloatvalue_def lower_special_def
  floatnumber_val_def number_val_def is_exp_char_def count_digits_def pow10_def

lemmas demo_defs = demo_state_def demo_predictor_def demo_series_def demo_sample_def
  initial_state_def exact_runtime_def

lemmas handler_defs = demo_predict_api_def predict_on_input_def model_window_samples_def
  samples_to_advance_def int_of_float_def raised_def input_sequence_df_def iloc_slice_def
  slice_bound_def iloc_def speed_heart_rate_values_def next_idx_origin_def py_trunc_def

subsection \<open>Slices and windows\<close>

lemma slice_bound_inside: "0 \<le> i \<Longrightarrow> i \<le> n \<Longrightarrow> slice_bound n i = i"
  by (simp add: slice_bound_def)

lemma iloc_slice_inside:
  assumes "0 \<le> a" "a \<le> b" "b \<le> int (length xs)"
  shows "iloc_slice xs a b = take (nat (b - a)) (drop (nat a) xs)"
  using assms by (simp add: iloc_slice_def Let_def slice_bound_inside)

lemma take_drop_positions:
  assumes "a + k \<le> length xs"
  shows "take k (drop a xs) = map ((!) xs) [a ..< a + k]"
  using assms by (intro nth_equalityI) auto

lemma input_sequence_df_full:
  assumes "0 < ws" "ws \<le> idx + 1" "idx + 1 \<le> int (length df)"
  shows "input_sequence_df df idx ws = take (nat ws) (drop (nat (idx + 1 - ws)) df)"
proof -
  have "max 0 (idx - ws + 1) = idx + 1 - ws" using assms by simp
  moreover have "iloc_slice df (idx + 1 - ws) (idx + 1)
                   = take (nat (idx + 1 - (idx + 1 - ws))) (drop (nat (idx + 1 - ws)) df)"
    using assms by (intro iloc_slice_inside) simp_all
  ultimately show ?thesis by (simp add: input_sequence_df_def)
qed

lemma input_sequence_df_length:
  assumes "0 \<le> idx" "idx < int (length df)" "0 < ws"
  shows "int (length (input_sequence_df df idx ws)) = min ws (idx + 1)"
proof -
  let ?a = "max 0 (idx - ws + 1)"
  have "iloc_slice df ?a (idx + 1) = take (nat (idx + 1 - ?a)) (drop (nat ?a) df)"
    using assms by (intro iloc_slice_inside) simp_all
  then show ?thesis using assms by (simp add: input_sequence_df_def)
qed

subsection \<open>The sample counts\<close>

lemma py_trunc_floor: "(if py_trunc x \<le> 0 then 1 else py_trunc x) = max 1 \<lfloor>x\<rfloor>"
  by (simp add: py_trunc_def)

lemma samples_to_advance_Finite:
  assumes "rnd rt (prediction_duration p / sampling_rate p) = Finite q"
  shows "samples_to_advance rt p = Inr (max 1 \<lfloor>q\<rfloor>)"
  using assms by (simp add: samples_to_advance_def int_of_float_def py_trunc_floor)

lemma samples_to_advance_Inr:
  assumes "samples_to_advance rt p = Inr advance"
  shows "\<exists>q. rnd rt (prediction_duration p / sampling_rate p) = Finite q
              \<and> advance = max 1 \<lfloor>q\<rfloor>"
  using assms
  by (cases "rnd rt (prediction_duration p / sampling_rate p)")
     (auto simp: samples_to_advance_def int_of_float_def py_trunc_floor)


subsection \<open>The path of a request through the prediction handler\<close>

lemma demo_predict_api_reaches_model:
  assumes "predictor st = Some p" "model p = Some m" "demo_item_df st = Some df"
    and "py_int idx_str = Some idx"
    and "0 < sampling_rate p" "model_window_samples rt p = Inr ws" "0 < ws"
    and "ws \<le> idx + 1" "idx + 1 \<le> int (length df)"
  shows "demo_predict_api rt st (Some idx_str)
           = predict_on_input rt p df idx ws
               (speed_heart_rate_values (input_sequence_df df idx ws))"
proof -
  have idx: "0 \<le> idx" "idx < int (length df)" using assms by simp_all
  then have "df \<noteq> []" by auto
  moreover have "int (length (input_sequence_df df idx ws)) = ws"
    using input_sequence_df_length [OF idx assms(7)] assms(8) by simp
  ultimately show ?thesis
    using assms idx by (simp add: demo_predict_api_def)
qed

lemma iloc_inside: "0 \<le> i \<Longrightarrow> i < int (length xs) \<Longrightarrow> iloc xs i = Some (xs ! nat i)"
  by (simp add: iloc_def)

lemma predict_on_input_returns:
  assumes "0 \<le> idx" "idx < int (length df)"
    and "shape a = (nat ws, 2)" "0 \<le> ws" "predict p a = Inr v"
    and "samples_to_advance rt p = Inr advance"
  shows "predict_on_input rt p df idx ws a
           = (Inr \<lparr>predicted_speed = v,
                   next_idx = min (idx + advance) (int (length df) - 1),
                   current_input_end_origin_timestamp = real_of_int (origin_timestamp (df ! nat idx)),
                   next_idx_origin_timestamp =
                     next_idx_origin df (min (idx + advance) (int (length df) - 1))\<rparr>,
              [a])"
  using assms by (simp add: predict_on_input_def iloc_inside Let_def)

lemma predict_on_input_result:
  assumes "predict_on_input rt p df idx ws a = (Inr r, calls)"
  shows "\<exists>advance. samples_to_advance rt p = Inr advance
           \<and> next_idx r = min (idx + advance) (int (length df) - 1)
           \<and> next_idx_origin_timestamp r = next_idx_origin df (next_idx r)
           \<and> (\<exists>cur. iloc df idx = Some cur
                 \<and> current_input_end_origin_timestamp r = real_of_int (origin_timestamp cur))
           \<and> predict p a = Inr (predicted_speed r)
           \<and> calls = [a] \<and> int (fst (shape a)) = ws \<and> snd (shape a) = 2"
  using assms
  by (auto simp: predict_on_input_def Let_def split: if_splits option.splits sum.splits)

lemma demo_predict_api_result:
  assumes "demo_predict_api rt st idx_arg = (Inr r, calls)"
  shows "\<exists>p m df idx_str idx ws.
           predictor st = Some p \<and> model p = Some m \<and> demo_item_df st = Some df
           \<and> idx_arg = Some idx_str \<and> py_int idx_str = Some idx
           \<and> 0 \<le> idx \<and> idx < int (length df) \<and> 0 < sampling_rate p
           \<and> model_window_samples rt p = Inr ws \<and> 0 < ws
           \<and> ws \<le> int (length (input_sequence_df df idx ws))
           \<and> predict_on_input rt p df idx ws
                (speed_heart_rate_values (input_sequence_df df idx ws)) = (Inr r, calls)"
  using assms
  by (auto simp: demo_predict_api_def split: option.splits if_splits sum.splits)

section \<open>The window of a prediction request\<close>

text \<open>
  Claim C1. Let the service be initialised, the configuration be sound
  (\<open>sampling_rate > 0\<close>, \<open>window_samples > 0\<close>) and \<open>idx\<close> be the integer that the
  request carries, with \<open>window_samples \<le> idx + 1 \<le> length()\<close>. Then the Predict
  operation hands to the model stage the window \<open>input_sequence_df\<close>, which is the slice
  of the series from \<open>start = max(0, idx - window_samples + 1)\<close> to \<open>idx + 1\<close>, that is the
  samples at the positions \<open>start, \<dots>, idx\<close> in order; the window has exactly
  \<open>window_samples\<close> samples and its last one is the sample at \<open>idx\<close>.
\<close>

theorem predict_window_extraction:
  assumes "predictor st = Some p" "model p = Some m" "demo_item_df st = Some df"
    and "py_int idx_str = Some idx" "0 < sampling_rate p"
    and "model_window_samples rt p = Inr ws" "0 < ws"
    and "ws \<le> idx + 1" "idx + 1 \<le> int (length df)"
  shows "demo_predict_api rt st (Some idx_str)
           = predict_on_input rt p df idx ws
               (speed_heart_rate_values (input_sequence_df df idx ws))
         \<and> input_sequence_df df idx ws = iloc_slice df (max 0 (idx - ws + 1)) (idx + 1)
         \<and> input_sequence_df df idx ws
             = map ((!) df) [nat (max 0 (idx - ws + 1)) ..< nat (idx + 1)]
         \<and> int (length (input_sequence_df df idx ws)) = ws
         \<and> last (input_sequence_df df idx ws) = df ! nat idx"
proof -
  define w where "w = input_sequence_df df idx ws"
  define a where "a = nat (idx + 1 - ws)"
  define k where "k = nat ws"
  have reach: "demo_predict_api rt st (Some idx_str)
                 = predict_on_input rt p df idx ws (speed_heart_rate_values w)"
    unfolding w_def by (rule demo_predict_api_reaches_model [OF assms])
  have start: "nat (max 0 (idx - ws + 1)) = a"
    using assms(8) by (simp add: a_def max_def)
  have k: "0 < k" "int k = ws" using assms(7) by (simp_all add: k_def)
  have fit: "a + k \<le> length df" using assms(7-9) unfolding a_def k_def by linarith
  have stop: "a + k = nat (idx + 1)" using assms(7-9) unfolding a_def k_def by linarith
  have last_pos: "a + (k - 1) = nat idx" using assms(7-9) unfolding a_def k_def by linarith
  have w: "w = take k (drop a df)"
    unfolding w_def a_def k_def using assms(7-9) by (rule input_sequence_df_full)
  have positions: "w = map ((!) df) [a ..< a + k]"
    unfolding w using fit by (rule take_drop_positions)
  have len: "length w = k" using fit by (simp add: w)
  have "w \<noteq> []" using len k by auto
  then have "last w = w ! (k - 1)" using len by (simp add: last_conv_nth)
  also have "\<dots> = df ! (a + (k - 1))" using fit k by (simp add: w)
  finally have lst: "last w = df ! nat idx" by (simp only: last_pos)
  have "w = iloc_slice df (max 0 (idx - ws + 1)) (idx + 1)"
    by (simp add: w_def input_sequence_df_def)
  moreover have "w = map ((!) df) [nat (max 0 (idx - ws + 1)) ..< nat (idx + 1)]"
    using positions by (simp only: start stop)
  moreover have "int (length w) = ws" using len k by simp
  ultimately show ?thesis using reach lst unfolding w_def by blast
qed

theorem predict_window_extraction_witness:
  "predictor demo_state = Some demo_predictor \<and> model demo_predictor = Some Model
   \<and> demo_item_df demo_state = Some demo_series \<and> py_int ''5'' = Some 5
   \<and> 0 < sampling_rate demo_predictor
   \<and> model_window_samples exact_runtime demo_predictor = Inr 3
   \<and> (3::int) \<le> 5 + 1 \<and> 5 + 1 \<le> int (length demo_series)
   \<and> input_sequence_df demo_series 5 3 = [demo_sample 3, demo_sample 4, demo_sample 5]
   \<and> last (input_sequence_df demo_series 5 3) = demo_sample 5"
proof -
  have h: "predictor demo_state = Some demo_predictor" "model demo_predictor = Some Model"
    "demo_item_df demo_state = Some demo_series" "py_int ''5'' = Some 5"
    "0 < sampling_rate demo_predictor"
    "model_window_samples exact_runtime demo_predictor = Inr 3"
    "(0::int) < 3" "(3::int) \<le> 5 + 1" "5 + 1 \<le> int (length demo_series)"
    by (simp_all add: demo_defs parse_defs model_window_samples_def int_of_float_def
          py_trunc_def)
  have range: "[nat (max 0 (5 - 3 + 1)) ..< nat (5 + 1)] = [3, 4, 5]"
    by (simp add: upt_conv_Cons)
  have nths: "map ((!) demo_series) [3, 4, 5] = [demo_sample 3, demo_sample 4, demo_sample 5]"
    "demo_series ! nat 5 = demo_sample 5"
    by (simp_all add: demo_series_def)
  note th = predict_window_extraction [OF h]
  from th have "input_sequence_df demo_series 5 3
                  = map ((!) demo_series) [nat (max 0 (5 - 3 + 1)) ..< nat (5 + 1)]"
    by blast
  then have win: "input_sequence_df demo_series 5 3
                    = [demo_sample 3, demo_sample 4, demo_sample 5]"
    by (simp only: range nths)
  from th have "last (input_sequence_df demo_series 5 3) = demo_series ! nat 5" by blast
  then have "last (input_sequence_df demo_series 5 3) = demo_sample 5"
    by (simp only: nths)
  with win h show ?thesis by blast
qed

section \<open>Too little history\<close>

text \<open>
  Claim C3, amended. The claim speaks of all \<open>idx < window_samples - 1\<close>; a negative
  \<open>idx\<close> (and one beyond the series) is turned away earlier, by the range check of line
  261. For an initialised service with a positive sampling rate and every \<open>idx\<close> with
  \<open>0 \<le> idx < length()\<close> and \<open>idx < window_samples - 1\<close>, the Predict operation fails with
  \<open>InsufficientWindow\<close> as a client error (400), and the model is not called: no
  shorter or padded window reaches it.
\<close>

theorem insufficient_window_rejected:
  assumes "predictor st = Some p" "model p = Some m" "demo_item_df st = Some df"
    and "py_int idx_str = Some idx" "0 \<le> idx" "idx < int (length df)"
    and "0 < sampling_rate p" "model_window_samples rt p = Inr ws" "idx < ws - 1"
  shows "demo_predict_api rt st (Some idx_str) = (Inl (InsufficientWindow, 400), [])"
proof -
  have ws: "0 < ws" using assms(5,9) by simp
  have "int (length (input_sequence_df df idx ws)) = idx + 1"
    using input_sequence_df_length [OF assms(5,6) ws] assms(9) by simp
  moreover have "df \<noteq> []" using assms(5,6) by auto
  ultimately show ?thesis
    using assms ws by (simp add: demo_predict_api_def)
qed

theorem insufficient_window_rejected_witness:
  "predictor demo_state = Some demo_predictor \<and> model demo_predictor = Some Model
   \<and> demo_item_df demo_state = Some demo_series \<and> py_int ''1'' = Some 1
   \<and> (0::int) \<le> 1 \<and> 1 < int (length demo_series) \<and> 0 < sampling_rate demo_predictor
   \<and> model_window_samples exact_runtime demo_predictor = Inr 3 \<and> (1::int) < 3 - 1
   \<and> demo_predict_api exact_runtime demo_state (Some ''1'')
       = (Inl (InsufficientWindow, 400), [])"
proof -
  have h: "predictor demo_state = Some demo_predictor" "model demo_predictor = Some Model"
    "demo_item_df demo_state = Some demo_series" "py_int ''1'' = Some 1"
    "(0::int) \<le> 1" "1 < int (length demo_series)" "0 < sampling_rate demo_predictor"
    "model_window_samples exact_runtime demo_predictor = Inr 3" "(1::int) < 3 - 1"
    by (simp_all add: demo_defs parse_defs model_window_samples_def int_of_float_def
          py_trunc_def)
  from insufficient_window_rejected [OF h] h show ?thesis by simp
qed

text \<open>
  The claim C3 as stated fails at \<open>idx = -1\<close> on the ten-sample deployment, where
  \<open>window_samples = 3\<close>: the response is \<open>IndexOutOfRange\<close>.
\<close>

theorem insufficient_window_counterexample:
  "py_int ''-1'' = Some (- 1)
   \<and> model_window_samples exact_runtime demo_predictor = Inr 3 \<and> (- 1::int) < 3 - 1
   \<and> demo_predict_api exact_runtime demo_state (Some ''-1'') = (Inl (IndexOutOfRange, 400), [])
   \<and> fst (demo_predict_api exact_runtime demo_state (Some ''-1''))
       \<noteq> Inl (InsufficientWindow, 400)"
  by (simp add: handler_defs demo_defs parse_defs)

section \<open>The next polling index\<close>

text \<open>
  Claim C2. Let the service be initialised and let \<open>idx\<close>, the integer that the request
  carries, be a valid index, \<open>0 \<le> idx < length()\<close>. Every prediction that the Predict
  operation returns has \<open>next_idx = min(idx + advance_samples, length() - 1)\<close> with
  \<open>advance_samples = max(1, floor(q))\<close>, where \<open>q\<close> is the double that the division
  \<open>prediction_duration / sampling_rate\<close> yields; this index lies in
  \<open>[idx, length() - 1]\<close>, and it is \<open>length() - 1\<close> when \<open>idx + advance_samples \<ge> length()\<close>.
  Reaching the end of the series is no failure: whenever the configuration is sound, the
  window is complete and the model yields a value, the operation returns a prediction
  with this \<open>next_idx\<close>.
\<close>

theorem next_idx_clamped:
  assumes "predictor st = Some p" "model p = Some m" "demo_item_df st = Some df"
    and "py_int idx_str = Some idx" "0 \<le> idx" "idx < int (length df)"
  shows "(\<forall>r calls. demo_predict_api rt st (Some idx_str) = (Inr r, calls) \<longrightarrow>
            (\<exists>q. rnd rt (prediction_duration p / sampling_rate p) = Finite q
               \<and> next_idx r = min (idx + max 1 \<lfloor>q\<rfloor>) (int (length df) - 1)
               \<and> idx \<le> next_idx r \<and> next_idx r \<le> int (length df) - 1
               \<and> (int (length df) \<le> idx + max 1 \<lfloor>q\<rfloor>
                    \<longrightarrow> next_idx r = int (length df) - 1)))
         \<and> (\<forall>q v ws. 0 < sampling_rate p \<and> model_window_samples rt p = Inr ws
                \<and> 0 < ws \<and> ws \<le> idx + 1
                \<and> rnd rt (prediction_duration p / sampling_rate p) = Finite q
                \<and> predict p (speed_heart_rate_values (input_sequence_df df idx ws)) = Inr v
              \<longrightarrow> (\<exists>r calls. demo_predict_api rt st (Some idx_str) = (Inr r, calls)
                     \<and> predicted_speed r = v
                     \<and> next_idx r = min (idx + max 1 \<lfloor>q\<rfloor>) (int (length df) - 1)))"
proof -
  have returned: "\<exists>q. rnd rt (prediction_duration p / sampling_rate p) = Finite q
               \<and> next_idx r = min (idx + max 1 \<lfloor>q\<rfloor>) (int (length df) - 1)
               \<and> idx \<le> next_idx r \<and> next_idx r \<le> int (length df) - 1
               \<and> (int (length df) \<le> idx + max 1 \<lfloor>q\<rfloor>
                    \<longrightarrow> next_idx r = int (length df) - 1)"
    if "demo_predict_api rt st (Some idx_str) = (Inr r, calls)" for r calls
  proof -
    from demo_predict_api_result [OF that] assms(1,3,4) obtain ws
      where "predict_on_input rt p df idx ws
               (speed_heart_rate_values (input_sequence_df df idx ws)) = (Inr r, calls)"
      by auto
    from predict_on_input_result [OF this] obtain advance
      where adv: "samples_to_advance rt p = Inr advance"
        and nxt: "next_idx r = min (idx + advance) (int (length df) - 1)"
      by blast
    from samples_to_advance_Inr [OF adv] obtain q
      where q: "rnd rt (prediction_duration p / sampling_rate p) = Finite q"
        "advance = max 1 \<lfloor>q\<rfloor>"
      by blast
    have "idx \<le> next_idx r" "next_idx r \<le> int (length df) - 1"
      "int (length df) \<le> idx + max 1 \<lfloor>q\<rfloor> \<longrightarrow> next_idx r = int (length df) - 1"
      unfolding nxt q(2) using assms(5,6) by linarith+
    with q nxt show ?thesis by blast
  qed
  have succeeds: "\<exists>r calls. demo_predict_api rt st (Some idx_str) = (Inr r, calls)
                    \<and> predicted_speed r = v
                    \<and> next_idx r = min (idx + max 1 \<lfloor>q\<rfloor>) (int (length df) - 1)"
    if c: "0 < sampling_rate p" "model_window_samples rt p = Inr ws" "0 < ws" "ws \<le> idx + 1"
      and q: "rnd rt (prediction_duration p / sampling_rate p) = Finite q"
      and v: "predict p (speed_heart_rate_values (input_sequence_df df idx ws)) = Inr v"
    for q v ws
  proof -
    let ?a = "speed_heart_rate_values (input_sequence_df df idx ws)"
    have "idx + 1 \<le> int (length df)" using assms(6) by simp
    from demo_predict_api_reaches_model [OF assms(1-4) c this]
    have reach: "demo_predict_api rt st (Some idx_str) = predict_on_input rt p df idx ws ?a" .
    have "int (length (input_sequence_df df idx ws)) = ws"
      using input_sequence_df_length [OF assms(5,6) c(3)] c(4) by simp
    then have "shape ?a = (nat ws, 2)"
      by (simp add: speed_heart_rate_values_def)
    from predict_on_input_returns
           [OF assms(5,6) this _ v samples_to_advance_Finite [OF q]] c(3) reach
    show ?thesis by simp
  qed
  from returned succeeds show ?thesis by blast
qed

theorem next_idx_clamped_witness:
  "predictor demo_state = Some demo_predictor \<and> model demo_predictor = Some Model
   \<and> demo_item_df demo_state = Some demo_series \<and> py_int ''9'' = Some 9
   \<and> (0::int) \<le> 9 \<and> 9 < int (length demo_series)
   \<and> rnd exact_runtime (prediction_duration demo_predictor / sampling_rate demo_predictor)
       = Finite 2
   \<and> demo_predict_api exact_runtime demo_state (Some ''9'')
       = (Inr \<lparr>predicted_speed = 435, next_idx = 9, current_input_end_origin_timestamp = 18,
               next_idx_origin_timestamp = 18\<rparr>,
          [\<lparr>shape = (3, 2), rows = [[16, 127], [17, 128], [18, 129]]\<rparr>])
   \<and> min (9 + max 1 \<lfloor>2::real\<rfloor>) (int (length demo_series) - 1) = 9"
proof -
  have h: "predictor demo_state = Some demo_predictor" "model demo_predictor = Some Model"
    "demo_item_df demo_state = Some demo_series" "py_int ''9'' = Some 9"
    "(0::int) \<le> 9" "9 < int (length demo_series)"
    by (simp_all add: demo_defs parse_defs)
  have q: "rnd exact_runtime (prediction_duration demo_predictor / sampling_rate demo_predictor)
             = Finite 2"
    by (simp add: demo_defs)
  have run: "demo_predict_api exact_runtime demo_state (Some ''9'')
       = (Inr \<lparr>predicted_speed = 435, next_idx = 9, current_input_end_origin_timestamp = 18,
               next_idx_origin_timestamp = 18\<rparr>,
          [\<lparr>shape = (3, 2), rows = [[16, 127], [17, 128], [18, 129]]\<rparr>])"
    by (simp add: handler_defs demo_defs parse_defs)
  from next_idx_clamped [OF h, of exact_runtime] run q
  have "(9::int) = min (9 + max 1 \<lfloor>2::real\<rfloor>) (int (length demo_series) - 1)"
    by auto
  with h q run show ?thesis by simp
qed

section \<open>Validation of the request parameter\<close>



section \<open>The shape of the model input\<close>

lemma predict_on_input_calls:
  assumes "a \<in> set (snd (predict_on_input rt p df idx ws input_array))"
  shows "a = input_array \<and> int (fst (shape a)) = ws \<and> snd (shape a) = 2"
  using assms
  by (auto simp: predict_on_input_def Let_def split: if_splits option.splits sum.splits)

lemma demo_predict_api_calls:
  assumes "a \<in> set (snd (demo_predict_api rt st idx_arg))" "predictor st = Some p"
  shows "\<exists>ws df idx. model_window_samples rt p = Inr ws \<and> 0 < ws
           \<and> a \<in> set (snd (predict_on_input rt p df idx ws
                  (speed_heart_rate_values (input_sequence_df df idx ws))))"
  using assms
  by (auto simp: demo_predict_api_def split: option.splits if_splits sum.splits)

text \<open>
  Claim C7. A candidate input array whose shape is not exactly \<open>(window_samples, 2)\<close>
  makes the Predict operation (its stage of lines 281 to 308, which receives the array)
  fail with \<open>InvalidInputShape\<close> without any call of the model; and for every state and
  every request, each array that the operation passes to the model's \<open>predict\<close> has the
  shape \<open>(window_samples, 2)\<close>.
\<close>

theorem model_input_shape_guard:
  "(\<forall>rt p df idx ws a. ws < 0 \<or> shape a \<noteq> (nat ws, 2)
       \<longrightarrow> predict_on_input rt p df idx ws a = (Inl (InvalidInputShape, 500), []))
   \<and> (\<forall>rt st idx_arg p a.
         predictor st = Some p \<and> a \<in> set (snd (demo_predict_api rt st idx_arg))
       \<longrightarrow> (\<exists>ws. model_window_samples rt p = Inr ws \<and> 0 < ws \<and> shape a = (nat ws, 2)))"
proof -
  have rejected: "predict_on_input rt p df idx ws a = (Inl (InvalidInputShape, 500), [])"
    if "ws < 0 \<or> shape a \<noteq> (nat ws, 2)" for rt p df idx ws a
  proof -
    have "int (fst (shape a)) \<noteq> ws \<or> snd (shape a) \<noteq> 2"
      using that by (cases "shape a") auto
    then show ?thesis by (auto simp: predict_on_input_def)
  qed
  have called: "\<exists>ws. model_window_samples rt p = Inr ws \<and> 0 < ws \<and> shape a = (nat ws, 2)"
    if "predictor st = Some p" "a \<in> set (snd (demo_predict_api rt st idx_arg))"
    for rt st idx_arg p a
  proof -
    from demo_predict_api_calls [OF that(2,1)] obtain ws df idx
      where ws: "model_window_samples rt p = Inr ws" "0 < ws"
        and "a \<in> set (snd (predict_on_input rt p df idx ws
              (speed_heart_rate_values (input_sequence_df df idx ws))))"
      by blast
    from predict_on_input_calls [OF this(3)]
    have "int (fst (shape a)) = ws" "snd (shape a) = 2" by blast+
    then have "shape a = (nat ws, 2)"
      by (cases "shape a") auto
    with ws show ?thesis by blast
  qed
  from rejected called show ?thesis by blast
qed

theorem model_input_shape_guard_witness:
  "shape \<lparr>shape = (2, 2), rows = [[16, 127], [17, 128]]\<rparr> \<noteq> (nat 3, 2)
   \<and> predict_on_input exact_runtime demo_predictor demo_series 5 3
        \<lparr>shape = (2, 2), rows = [[16, 127], [17, 128]]\<rparr> = (Inl (InvalidInputShape, 500), [])
   \<and> predictor demo_state = Some demo_predictor
   \<and> \<lparr>shape = (3, 2), rows = [[12, 123], [13, 124], [14, 125]]\<rparr>
        \<in> set (snd (demo_predict_api exact_runtime demo_state (Some ''5'')))
   \<and> model_window_samples exact_runtime demo_predictor = Inr 3"
proof -
  let ?short = "\<lparr>shape = (2, 2), rows = [[16, 127], [17, 128]]\<rparr>"
  let ?full = "\<lparr>shape = (3, 2), rows = [[12, 123], [13, 124], [14, 125]]\<rparr>"
  have h1: "shape ?short \<noteq> (nat 3, 2)" by simp
  have h2: "predictor demo_state = Some demo_predictor
            \<and> ?full \<in> set (snd (demo_predict_api exact_runtime demo_state (Some ''5'')))"
    by (simp add: handler_defs demo_defs parse_defs)
  have ws: "model_window_samples exact_runtime demo_predictor = Inr 3"
    by (simp add: handler_defs demo_defs)
  from model_input_shape_guard h1
  have "predict_on_input exact_runtime demo_predictor demo_series 5 3 ?short
          = (Inl (InvalidInputShape, 500), [])"
    by blast
  with h1 h2 ws show ?thesis by blast
qed

section \<open>The origin timestamp of the next index\<close>



section \<open>The nearest-time lookup\<close>





section \<open>The process state over a run\<close>







section \<open>Requests before initialisation\<close>



section \<open>Repeated prediction requests\<close>



section \<open>Origin timestamps of the loaded series\<close>

lemmas loader_defs = load_demo_data_def session_frame_def basic_cleaning_def int64_def
  warmup_session_def

text \<open>
  Claim C5. The claim says that in every loaded series the origin timestamp of a sample is
  its timestamp minus the first sample's timestamp, and that the first sample has origin
  timestamp 0. The loader takes the origin from the first row of the sorted frame (line
  183) and removes invalid rows only afterwards (lines 186 to 188). On a session whose
  earliest row has heart rate 0 that row is removed: the loaded series has one sample,
  with timestamp 20 and origin timestamp 10, which is neither 0 nor the sample's
  timestamp minus the first loaded sample's timestamp.
\<close>

theorem origin_taken_before_cleaning:
  "load_demo_data warmup_session
     = Inr [\<lparr>timestamp = 20, origin_timestamp = 10, heart_rate = 100, speed = 1\<rparr>]
   \<and> origin_timestamp
         (hd [\<lparr>timestamp = 20, origin_timestamp = 10, heart_rate = 100, speed = 1\<rparr>]) \<noteq> 0
   \<and> origin_timestamp \<lparr>timestamp = 20, origin_timestamp = 10, heart_rate = 100, speed = 1\<rparr>
       \<noteq> timestamp \<lparr>timestamp = 20, origin_timestamp = 10, heart_rate = 100, speed = 1\<rparr>
         - timestamp (hd [\<lparr>timestamp = 20, origin_timestamp = 10, heart_rate = 100, speed = 1\<rparr>])"
  by (simp add: loader_defs)

end
